theory Spec2Isabelle
  imports Complex_Main "HOL-Library.Multiset" "HOL-Library.Sublist"
begin

section \<open>IMDb top-100 pipeline (IMDb\_EDA.py)\<close>

text \<open>
  The script is a linear pandas pipeline. The embedding keeps a dataframe as the list of
  its rows, each row a record of its cells. A cell that pandas holds as missing
  (\<open>NaN\<close>, \<open>pd.NA\<close>) is \<open>None\<close>. Ratings and runtimes are decimals, modelled as
  rationals; floating-point rounding is not modelled. An exception is a value of
  \<open>error\<close> on the left of a sum.

  What the script leaves to the library is a parameter of the model:
  \<^item> \<open>num\<close>, the scalar parser behind \<open>pd.to_numeric\<close> (\<open>None\<close> where the text is
    not a number, which \<open>errors='coerce'\<close> turns into \<open>NaN\<close>);
  \<^item> the row order produced by \<open>sort_values\<close> and by the ordering inside
    \<open>value_counts\<close>. The script never passes \<open>kind\<close>, so pandas sorts with its
    default \<open>'quicksort'\<close>, for which only the result being an ordered rearrangement
    of the rows is documented;
  \<^item> \<open>rx\<close>, the regular-expression search behind \<open>str.contains\<close>, for patterns
    that contain metacharacters.
  The network access, the two files written and the drawing of the charts are outside
  the model.
\<close>

subsection \<open>Data model\<close>

datatype error = ValueError | TypeError | IndexError

text \<open>The two tables as \<open>pd.read_csv\<close> delivers them. A text cell is \<open>Some\<close> of the
  text read, or \<open>None\<close> where \<open>read_csv\<close> itself read a missing value. The columns
  of title.basics that the script never touches are left out.\<close>

record basics_row =
  b_tconst :: "string option"
  b_titleType :: "string option"
  b_primaryTitle :: "string option"
  b_startYear :: "string option"
  b_runtimeMinutes :: "string option"
  b_genres :: "string option"

record ratings_row =
  r_tconst :: "string option"
  r_averageRating :: rat
  r_numVotes :: int

text \<open>A row of the working frame \<open>movies\<close>, under the column names the script uses.
  The types of \<open>startYear\<close> and \<open>runtimeMinutes\<close> change when the columns are
  coerced, so they are type parameters.\<close>

record ('y, 'm) movies_row =
  tconst :: "string option"
  titleType :: "string option"
  primaryTitle :: "string option"
  startYear :: 'y
  runtimeMinutes :: 'm
  genres :: "string option"
  averageRating :: rat
  numVotes :: int

text \<open>A row of the returned table, after the renaming. Every cell but \<open>Rank\<close> can be
  missing.\<close>

record movie =
  Rank :: int
  Title :: "string option"
  Year :: "int option"
  Rating :: "rat option"
  Votes :: "int option"
  Runtime :: "rat option"
  Genres :: "string option"

subsection \<open>Transform: \<open>get_top_100_movies\<close>\<close>

text \<open>\<open>basics.merge(ratings, on='tconst')\<close>: an inner join that keeps the order of the
  left table; a key that occurs several times on the right gives several rows.\<close>

definition merge :: "basics_row list \<Rightarrow> ratings_row list
    \<Rightarrow> (string option, string option) movies_row list" where
  "merge basics ratings =
     concat (map (\<lambda>b. map (\<lambda>r.
        \<lparr>tconst = b_tconst b, titleType = b_titleType b,
         primaryTitle = b_primaryTitle b, startYear = b_startYear b,
         runtimeMinutes = b_runtimeMinutes b, genres = b_genres b,
         averageRating = r_averageRating r, numVotes = r_numVotes r\<rparr>)
        (filter (\<lambda>r. r_tconst r = b_tconst b) ratings)) basics)"

text \<open>The two characters backslash, N: the literal \<open>'\\N'\<close> of the script.\<close>

definition NA_marker :: string where
  "NA_marker = [CHR 0x5C, CHR ''N'']"

text \<open>\<open>movies.replace('\\N', pd.NA)\<close> on one text cell.\<close>

definition replace_NA :: "string option \<Rightarrow> string option" where
  "replace_NA c = (if c = Some NA_marker then None else c)"

text \<open>\<open>pd.to_numeric(_, errors='coerce')\<close> on one cell.\<close>

definition to_numeric :: "(string \<Rightarrow> rat option) \<Rightarrow> string option \<Rightarrow> rat option" where
  "to_numeric num c = (case c of None \<Rightarrow> None | Some s \<Rightarrow> num s)"

text \<open>\<open>.astype('Int64')\<close> on a numeric column: a missing value stays missing, a whole
  number is kept, and a number with a fractional part makes the cast raise TypeError
  for the whole column.\<close>

definition astype_Int64 :: "rat option list \<Rightarrow> error + int option list" where
  "astype_Int64 col =
     (if \<forall>c \<in> set col. case c of None \<Rightarrow> True | Some q \<Rightarrow> of_int \<lfloor>q\<rfloor> = q
      then Inr (map (map_option floor) col) else Inl TypeError)"

text \<open>One row after lines 23 to 27: every text cell has gone through the replacement,
  \<open>startYear\<close> holds the value \<open>y\<close> that the cast of the column produced for the
  row, and \<open>runtimeMinutes\<close> is coerced to a number. The two numeric columns of the
  ratings table hold no text and stay as they are.\<close>

definition clean_row :: "(string \<Rightarrow> rat option) \<Rightarrow> (string option, string option) movies_row
    \<Rightarrow> int option \<Rightarrow> (int option, rat option) movies_row" where
  "clean_row num m y =
     \<lparr>tconst = replace_NA (tconst m), titleType = replace_NA (titleType m),
      primaryTitle = replace_NA (primaryTitle m), startYear = y,
      runtimeMinutes = to_numeric num (replace_NA (runtimeMinutes m)),
      genres = replace_NA (genres m),
      averageRating = averageRating m, numVotes = numVotes m\<rparr>"

text \<open>Lines 22 to 27: the type filter, the replacement and the two coercions. The
  result is the frame that \<open>sort_values\<close> receives.\<close>

definition filter_and_clean :: "(string \<Rightarrow> rat option)
    \<Rightarrow> (string option, string option) movies_row list
    \<Rightarrow> error + (int option, rat option) movies_row list" where
  "filter_and_clean num merged =
     (let movies = filter (\<lambda>m. titleType m = Some ''movie'') merged in
      case astype_Int64 (map (\<lambda>m. to_numeric num (replace_NA (startYear m))) movies) of
        Inl e \<Rightarrow> Inl e
      | Inr years \<Rightarrow> Inr (map (\<lambda>(m, y). clean_row num m y) (zip movies years)))"

text \<open>The renaming and the column selection of lines 34 to 43, with the rank that
  \<open>insert\<close> gave the row.\<close>

definition rename_select :: "int \<Rightarrow> (int option, rat option) movies_row \<Rightarrow> movie" where
  "rename_select k m =
     \<lparr>Rank = k, Title = primaryTitle m, Year = startYear m,
      Rating = Some (averageRating m), Votes = Some (numVotes m),
      Runtime = runtimeMinutes m, Genres = genres m\<rparr>"

definition na_row :: "int \<Rightarrow> movie" where
  "na_row k = \<lparr>Rank = k, Title = None, Year = None, Rating = None, Votes = None,
               Runtime = None, Genres = None\<rparr>"

text \<open>\<open>movies.insert(0, 'Rank', range(1, 101))\<close> followed by the renaming. The hundred
  values must match the length of the frame, else pandas raises ValueError; a frame with
  no row at all first takes the index of the values and so becomes a hundred rows of
  missing cells.\<close>

definition insert_Rank :: "(int option, rat option) movies_row list \<Rightarrow> error + movie list" where
  "insert_Rank rows =
     (if length rows = 100 then Inr (map (\<lambda>(k, m). rename_select k m) (zip [1..100] rows))
      else if rows = [] then Inr (map na_row [1..100])
      else Inl ValueError)"

text \<open>What is documented of \<open>sort_values('numVotes', ascending=False)\<close>: the rows
  are rearranged, and the vote counts do not increase.\<close>

definition sorts_by_votes :: "((int option, rat option) movies_row list
    \<Rightarrow> (int option, rat option) movies_row list) \<Rightarrow> bool" where
  "sorts_by_votes srt \<longleftrightarrow>
     (\<forall>xs. mset (srt xs) = mset xs \<and> sorted_wrt (\<lambda>a b. numVotes b \<le> numVotes a) (srt xs))"

definition get_top_100_movies ::
  "((int option, rat option) movies_row list \<Rightarrow> (int option, rat option) movies_row list)
    \<Rightarrow> (string \<Rightarrow> rat option) \<Rightarrow> basics_row list \<Rightarrow> ratings_row list
    \<Rightarrow> error + movie list" where
  "get_top_100_movies srt num basics ratings =
     (case filter_and_clean num (merge basics ratings) of
        Inl e \<Rightarrow> Inl e
      | Inr movies \<Rightarrow> insert_Rank (take 100 (srt movies)))"

text \<open>The rows that survive the join and the type filter.\<close>

definition qualifying :: "basics_row list \<Rightarrow> ratings_row list
    \<Rightarrow> (string option, string option) movies_row list" where
  "qualifying basics ratings =
     filter (\<lambda>m. titleType m = Some ''movie'') (merge basics ratings)"

subsection \<open>Category labels and their frequencies\<close>

text \<open>Python's \<open>s.split(',')\<close>, as a scan that collects the current label in \<open>w\<close>
  (reversed). The empty text gives one empty label.\<close>

fun split_acc :: "char \<Rightarrow> string \<Rightarrow> string \<Rightarrow> string list" where
  "split_acc c w [] = [rev w]"
| "split_acc c w (x # xs) =
     (if x = c then rev w # split_acc c [] xs else split_acc c (x # w) xs)"

definition str_split :: "string \<Rightarrow> string list" where
  "str_split s = split_acc (CHR '','') [] s"

text \<open>\<open>df['Genres'].str.split(',').explode()\<close>: one entry per label, and one missing
  entry for a row whose field is missing.\<close>

definition all_genres :: "'a movie_scheme list \<Rightarrow> string option list" where
  "all_genres df =
     concat (map (\<lambda>r. case Genres r of None \<Rightarrow> [None]
                                      | Some s \<Rightarrow> map Some (str_split s)) df)"

text \<open>The values of a column that are not missing.\<close>

definition present :: "'a option list \<Rightarrow> 'a list" where
  "present col = concat (map (\<lambda>c. case c of None \<Rightarrow> [] | Some v \<Rightarrow> [v]) col)"

text \<open>The distinct values of a list, in the order of their first occurrence.\<close>

fun uniques :: "'a list \<Rightarrow> 'a list" where
  "uniques [] = []"
| "uniques (x # xs) = x # filter (\<lambda>y. y \<noteq> x) (uniques xs)"


text \<open>\<open>Series.value_counts()\<close>: missing values are dropped, each distinct value is
  paired with the number of its occurrences, and the pairs are ordered by \<open>srt\<close>.\<close>

definition value_counts :: "((string \<times> nat) list \<Rightarrow> (string \<times> nat) list)
    \<Rightarrow> string option list \<Rightarrow> (string \<times> nat) list" where
  "value_counts srt col =
     (let vals = present col in srt (map (\<lambda>v. (v, count_list vals v)) (uniques vals)))"

subsection \<open>Report: \<open>analyze_data\<close>\<close>

record insights =
  total_movies :: nat
  average_rating :: "rat option"
  average_runtime :: "rat option"
  total_votes :: int
  oldest_movie :: "int \<times> string option"
  newest_movie :: "int \<times> string option"
  top_genres :: "(string \<times> nat) list"

text \<open>\<open>Series.mean()\<close> skips missing values and is missing itself when nothing is
  left.\<close>

definition mean :: "rat option list \<Rightarrow> rat option" where
  "mean col = (let vs = present col in
                 if vs = [] then None else Some (sum_list vs / of_nat (length vs)))"

text \<open>\<open>df[df['Year'] == df['Year'].min()]['Title'].values[0]\<close>, and the same with
  \<open>max\<close>: the extreme year that is present and the title of the first row that has it.
  With no year present the selection is empty and \<open>values[0]\<close> raises IndexError.\<close>

definition year_extreme :: "(int \<Rightarrow> int \<Rightarrow> int) \<Rightarrow> 'a movie_scheme list
    \<Rightarrow> error + (int \<times> string option)" where
  "year_extreme pick df =
     (case present (map Year df) of
        [] \<Rightarrow> Inl IndexError
      | y # ys \<Rightarrow>
          (let m = fold pick ys y in
           case filter (\<lambda>r. Year r = Some m) df of
             [] \<Rightarrow> Inl IndexError
           | r # _ \<Rightarrow> Inr (m, Title r)))"

text \<open>The function prints and returns nothing. The model returns the frame as the call
  leaves it, and what was printed (as values, before formatting) or the exception.\<close>

definition analyze_data :: "((string \<times> nat) list \<Rightarrow> (string \<times> nat) list)
    \<Rightarrow> 'a movie_scheme list \<Rightarrow> 'a movie_scheme list \<times> (error + insights)" where
  "analyze_data srt df =
     (df,
      case year_extreme min df of
        Inl e \<Rightarrow> Inl e
      | Inr old \<Rightarrow>
         (case year_extreme max df of
            Inl e \<Rightarrow> Inl e
          | Inr new \<Rightarrow>
              Inr \<lparr>total_movies = length df,
                   average_rating = mean (map Rating df),
                   average_runtime = mean (map Runtime df),
                   total_votes = sum_list (present (map Votes df)),
                   oldest_movie = old,
                   newest_movie = new,
                   top_genres = take 3 (value_counts srt (all_genres df))\<rparr>))"

subsection \<open>Visualize: \<open>create_visualizations\<close>\<close>

text \<open>The frame after line 103, \<open>df['Decade'] = (df['Year'] // 10) * 10\<close>: the rows
  of \<open>movie\<close> with one more column. Python's \<open>//\<close> on integers is floor division, as
  \<open>div\<close> on \<open>int\<close> is; a missing year gives a missing decade.\<close>

record movie_decade = movie +
  Decade :: "int option"

definition add_Decade :: "movie \<Rightarrow> movie_decade" where
  "add_Decade r =
     \<lparr>Rank = Rank r, Title = Title r, Year = Year r, Rating = Rating r,
      Votes = Votes r, Runtime = Runtime r, Genres = Genres r,
      Decade = map_option (\<lambda>y. (y div 10) * 10) (Year r)\<rparr>"

text \<open>\<open>df['Decade'].value_counts().sort_index()\<close>: the decades present, ascending,
  each with its number of rows.\<close>

definition decade_counts :: "movie_decade list \<Rightarrow> (int \<times> nat) list" where
  "decade_counts df =
     (let ds = present (map Decade df) in map (\<lambda>d. (d, count_list ds d)) (sort (remdups ds)))"

text \<open>\<open>Series.str.contains(pat)\<close> on one text: a regular-expression search. A pattern
  without metacharacters matches exactly where it occurs as a substring; any other
  pattern is left to the library's matcher \<open>rx\<close>.\<close>

definition regex_literal :: "string \<Rightarrow> bool" where
  "regex_literal pat \<longleftrightarrow>
     (\<forall>c \<in> set pat. c \<notin> set ''.^$*+?{}[]|()'' \<and> c \<noteq> CHR 0x5C)"

definition str_contains :: "(string \<Rightarrow> string \<Rightarrow> bool) \<Rightarrow> string \<Rightarrow> string \<Rightarrow> bool" where
  "str_contains rx pat s = (if regex_literal pat then sublist pat s else rx pat s)"

text \<open>Lines 122 to 128 for one category: \<open>df[df['Genres'].str.contains(genre)]\<close> and
  one entry per selected row. A missing field makes the mask non-boolean, and indexing
  with it raises ValueError.\<close>

definition genre_movies :: "(string \<Rightarrow> string \<Rightarrow> bool) \<Rightarrow> string \<Rightarrow> 'a movie_scheme list
    \<Rightarrow> error + 'a movie_scheme list" where
  "genre_movies rx genre df =
     (if \<exists>r \<in> set df. Genres r = None then Inl ValueError
      else Inr (filter (\<lambda>r. case Genres r of None \<Rightarrow> False
                                           | Some s \<Rightarrow> str_contains rx genre s) df))"

fun genre_data :: "(string \<Rightarrow> string \<Rightarrow> bool) \<Rightarrow> string list \<Rightarrow> 'a movie_scheme list
    \<Rightarrow> error + (string \<times> rat option) list" where
  "genre_data rx [] df = Inr []"
| "genre_data rx (genre # rest) df =
     (case genre_movies rx genre df of
        Inl e \<Rightarrow> Inl e
      | Inr rows \<Rightarrow>
         (case genre_data rx rest df of
            Inl e \<Rightarrow> Inl e
          | Inr others \<Rightarrow> Inr (map (\<lambda>r. (genre, Rating r)) rows @ others)))"

record panels =
  panel_B :: "(int \<times> nat) list"
  panel_C :: "(string \<times> rat option) list"

text \<open>The model returns the caller's frame as the call leaves it, and the data behind
  panels B and C or the exception. Panels A and D only read the frame; the drawing itself
  is not modelled. The column is added before panel C is computed, so the frame carries
  it also when panel C raises.\<close>

definition create_visualizations :: "((string \<times> nat) list \<Rightarrow> (string \<times> nat) list)
    \<Rightarrow> (string \<Rightarrow> string \<Rightarrow> bool) \<Rightarrow> movie list \<Rightarrow> movie_decade list \<times> (error + panels)" where
  "create_visualizations srt rx df0 =
     (let df = map add_Decade df0;
          top5 = map fst (take 5 (value_counts srt (all_genres df)))
      in (df,
          case genre_data rx top5 df of
            Inl e \<Rightarrow> Inl e
          | Inr gd \<Rightarrow> Inr \<lparr>panel_B = decade_counts df, panel_C = gd\<rparr>))"

subsection \<open>Rank by category: \<open>top_movies_by_genre\<close>\<close>

text \<open>Lines 174 to 176 on a copy of the frame: the field is split and the row repeated
  once per label, every copy carrying one label.\<close>

definition explode_Genres :: "'a movie_scheme list \<Rightarrow> 'a movie_scheme list" where
  "explode_Genres df =
     concat (map (\<lambda>r. case Genres r of
                         None \<Rightarrow> [r]
                       | Some s \<Rightarrow> map (\<lambda>l. r\<lparr>Genres := Some l\<rparr>) (str_split s)) df)"

text \<open>\<open>groupby('Genres').head(n)\<close>: the rows stay in the order of the frame, and a
  row is kept when fewer than \<open>n\<close> rows of its group come before it. \<open>seen\<close> holds
  the labels of the rows passed so far. A row with a missing label belongs to no group
  and is dropped.\<close>

fun groupby_head :: "nat \<Rightarrow> string list \<Rightarrow> 'a movie_scheme list \<Rightarrow> 'a movie_scheme list" where
  "groupby_head n seen [] = []"
| "groupby_head n seen (r # rs) =
     (case Genres r of
        None \<Rightarrow> groupby_head n seen rs
      | Some g \<Rightarrow> (if count_list seen g < n then [r] else []) @ groupby_head n (g # seen) rs)"

text \<open>\<open>frame[frame['Genres'] == genre]\<close>.\<close>

definition of_genre :: "string \<Rightarrow> 'a movie_scheme list \<Rightarrow> 'a movie_scheme list" where
  "of_genre genre frame = filter (\<lambda>r. Genres r = Some genre) frame"

record leaderboard =
  genre_name :: string
  by_rating :: "(string option \<times> rat option \<times> int option) list"
  by_votes :: "(string option \<times> int option \<times> int option) list"

text \<open>\<open>srtR\<close> and \<open>srtV\<close> stand for the two \<open>sort_values\<close> calls of lines 179 and
  183, \<open>srtC\<close> for the ordering inside \<open>value_counts\<close>. A printed table is the list of
  its rows.\<close>

definition top_movies_by_genre ::
  "('a movie_scheme list \<Rightarrow> 'a movie_scheme list) \<Rightarrow> ('a movie_scheme list \<Rightarrow> 'a movie_scheme list)
    \<Rightarrow> ((string \<times> nat) list \<Rightarrow> (string \<times> nat) list) \<Rightarrow> 'a movie_scheme list \<Rightarrow> leaderboard list" where
  "top_movies_by_genre srtR srtV srtC df =
     (let genre_df = explode_Genres df;
          top_by_rating = groupby_head 10 [] (srtR genre_df);
          top_by_votes = groupby_head 10 [] (srtV genre_df);
          top3 = map fst (take 3 (value_counts srtC (map Genres genre_df)))
      in map (\<lambda>genre.
            \<lparr>genre_name = genre,
             by_rating = map (\<lambda>r. (Title r, Rating r, Year r))
                           (take 3 (of_genre genre top_by_rating)),
             by_votes = map (\<lambda>r. (Title r, Votes r, Year r))
                          (take 3 (of_genre genre top_by_votes))\<rparr>) top3)"

text \<open>The simplification the specification allows: the same report, with the first
  three rows of each category taken from the sorted frame directly.\<close>

definition top_3_directly ::
  "('a movie_scheme list \<Rightarrow> 'a movie_scheme list) \<Rightarrow> ('a movie_scheme list \<Rightarrow> 'a movie_scheme list)
    \<Rightarrow> ((string \<times> nat) list \<Rightarrow> (string \<times> nat) list) \<Rightarrow> 'a movie_scheme list \<Rightarrow> leaderboard list" where
  "top_3_directly srtR srtV srtC df =
     (let genre_df = explode_Genres df;
          top3 = map fst (take 3 (value_counts srtC (map Genres genre_df)))
      in map (\<lambda>genre.
            \<lparr>genre_name = genre,
             by_rating = map (\<lambda>r. (Title r, Rating r, Year r))
                           (take 3 (of_genre genre (srtR genre_df))),
             by_votes = map (\<lambda>r. (Title r, Votes r, Year r))
                          (take 3 (of_genre genre (srtV genre_df)))\<rparr>) top3)"

subsection \<open>The script's main block\<close>

record run =
  csv :: "movie list"
  report :: insights
  charts :: panels
  leaderboards :: "leaderboard list"

text \<open>Lines 207 to 221. The one frame \<open>movies\<close> is handed to the three steps in turn;
  each step receives the frame as the step before left it.\<close>

definition main ::
  "((int option, rat option) movies_row list \<Rightarrow> (int option, rat option) movies_row list)
    \<Rightarrow> (string \<Rightarrow> rat option) \<Rightarrow> ((string \<times> nat) list \<Rightarrow> (string \<times> nat) list)
    \<Rightarrow> (string \<Rightarrow> string \<Rightarrow> bool)
    \<Rightarrow> (movie_decade list \<Rightarrow> movie_decade list) \<Rightarrow> (movie_decade list \<Rightarrow> movie_decade list)
    \<Rightarrow> basics_row list \<Rightarrow> ratings_row list \<Rightarrow> error + run" where
  "main srt num srtC rx srtR srtV basics ratings =
     (case get_top_100_movies srt num basics ratings of
        Inl e \<Rightarrow> Inl e
      | Inr movies \<Rightarrow>
         (case analyze_data srtC movies of
            (movies1, Inl e) \<Rightarrow> Inl e
          | (movies1, Inr rep) \<Rightarrow>
             (case create_visualizations srtC rx movies1 of
                (movies2, Inl e) \<Rightarrow> Inl e
              | (movies2, Inr pan) \<Rightarrow>
                  Inr \<lparr>csv = movies, report = rep, charts = pan,
                       leaderboards = top_movies_by_genre srtR srtV srtC movies2\<rparr>)))"

subsection \<open>Concrete instances of the library parameters\<close>

text \<open>Two orderings that \<open>sort_values('numVotes', ascending=False)\<close> may produce: the
  first keeps rows of equal vote count in the order they had, the second reverses
  them.\<close>

definition keeping_sort :: "('y, 'm) movies_row list \<Rightarrow> ('y, 'm) movies_row list" where
  "keeping_sort xs = sort_key (\<lambda>m. - numVotes m) xs"


text \<open>An ordering for \<open>value_counts\<close>.\<close>

definition count_sort :: "(string \<times> nat) list \<Rightarrow> (string \<times> nat) list" where
  "count_sort xs = rev (sort_key snd xs)"

text \<open>A parser of unsigned decimal numerals, for the concrete runs.\<close>

definition digit_val :: "char \<Rightarrow> nat option" where
  "digit_val c = (let n = (of_char c :: nat) in
                   if 48 \<le> n \<and> n \<le> 57 then Some (n - 48) else None)"

fun read_digits :: "nat \<Rightarrow> string \<Rightarrow> nat option" where
  "read_digits acc [] = Some acc"
| "read_digits acc (c # cs) =
     (case digit_val c of None \<Rightarrow> None | Some d \<Rightarrow> read_digits (10 * acc + d) cs)"

definition decimal :: "string \<Rightarrow> rat option" where
  "decimal s = (if s = [] then None else map_option of_nat (read_digits 0 s))"

text \<open>Two tables for the concrete runs: \<open>n\<close> titles with distinct identifiers, every
  seventh of them a short, every fifth with the missing-value marker as its year, and a
  ratings row for each.\<close>

definition sample_key :: "nat \<Rightarrow> string" where
  "sample_key i = ''tt'' @ replicate i (CHR ''1'')"

definition sample_basics_row :: "nat \<Rightarrow> basics_row" where
  "sample_basics_row i =
     \<lparr>b_tconst = Some (sample_key i),
      b_titleType = Some (if i mod 7 = 3 then ''short'' else ''movie''),
      b_primaryTitle = Some (''Film '' @ sample_key i),
      b_startYear = Some (if i mod 5 = 0 then NA_marker else ''1994''),
      b_runtimeMinutes = Some (if i mod 11 = 0 then NA_marker else ''142''),
      b_genres = Some (if i mod 3 = 0 then ''Action,Drama''
                       else if i mod 3 = 1 then ''Comedy'' else NA_marker)\<rparr>"

definition sample_ratings_row :: "nat \<Rightarrow> ratings_row" where
  "sample_ratings_row i =
     \<lparr>r_tconst = Some (sample_key i),
      r_averageRating = 5 + of_nat (i mod 40) / 10,
      r_numVotes = 1000 + int ((i * 37) mod 101)\<rparr>"

definition sample_basics :: "nat \<Rightarrow> basics_row list" where
  "sample_basics n = map sample_basics_row [0..<n]"

definition sample_ratings :: "nat \<Rightarrow> ratings_row list" where
  "sample_ratings n = map sample_ratings_row [0..<n]"


text \<open>Small frames for the concrete runs of the three analysis steps.\<close>

definition scenario_frame :: "movie list" where
  "scenario_frame =
     [\<lparr>Rank = 1, Title = Some ''When Harry Met Sally...'', Year = Some 1989, Rating = Some (77/10),
       Votes = Some 250000, Runtime = Some 95, Genres = Some ''Comedy,Romance''\<rparr>,
      \<lparr>Rank = 2, Title = Some ''Heat'', Year = Some 1995, Rating = Some (83/10),
       Votes = Some 200000, Runtime = Some 170, Genres = Some ''Crime''\<rparr>,
      \<lparr>Rank = 3, Title = Some ''Alien'', Year = Some 1979, Rating = Some (85/10),
       Votes = Some 150000, Runtime = Some 117, Genres = Some ''Horror''\<rparr>]"

definition music_frame :: "movie list" where
  "music_frame =
     [\<lparr>Rank = 1, Title = Some ''Whiplash'', Year = Some 2014, Rating = Some (85/10),
       Votes = Some 900000, Runtime = Some 106, Genres = Some ''Music''\<rparr>,
      \<lparr>Rank = 2, Title = Some ''La La Land'', Year = Some 2016, Rating = Some 8,
       Votes = Some 600000, Runtime = Some 128, Genres = Some ''Musical''\<rparr>]"

definition action_drama_row :: movie where
  "action_drama_row =
     \<lparr>Rank = 1, Title = Some ''Gladiator'', Year = Some 2000, Rating = Some (85/10),
      Votes = Some 1500000, Runtime = Some 155, Genres = Some ''Action,Drama''\<rparr>"

text \<open>Two orderings for the concrete runs of \<open>top_movies_by_genre\<close>: by rating and by
  votes, descending, rows of equal key in the order they had. Within one category they
  give the rows in the order of lines 179 and 183.\<close>

definition by_rating :: "'a movie_scheme list \<Rightarrow> 'a movie_scheme list" where
  "by_rating xs = sort_key (\<lambda>r. case Rating r of None \<Rightarrow> 0 | Some q \<Rightarrow> - q) xs"

definition by_votes :: "'a movie_scheme list \<Rightarrow> 'a movie_scheme list" where
  "by_votes xs = sort_key (\<lambda>r. case Votes r of None \<Rightarrow> 0 | Some v \<Rightarrow> - v) xs"

definition drama_frame :: "movie list" where
  "drama_frame =
     [\<lparr>Rank = 1, Title = Some ''A'', Year = Some 1994, Rating = Some (93/10),
       Votes = Some 500, Runtime = Some 142, Genres = Some ''Drama''\<rparr>,
      \<lparr>Rank = 2, Title = Some ''B'', Year = Some 2008, Rating = Some 9,
       Votes = Some 400, Runtime = Some 152, Genres = Some ''Action,Drama''\<rparr>,
      \<lparr>Rank = 3, Title = Some ''C'', Year = Some 1999, Rating = Some (88/10),
       Votes = Some 300, Runtime = Some 139, Genres = Some ''Drama''\<rparr>,
      \<lparr>Rank = 4, Title = Some ''D'', Year = Some 1972, Rating = Some (92/10),
       Votes = Some 200, Runtime = Some 175, Genres = Some ''Crime,Drama''\<rparr>,
      \<lparr>Rank = 5, Title = Some ''E'', Year = Some 2010, Rating = Some (87/10),
       Votes = Some 100, Runtime = Some 148, Genres = Some ''Action''\<rparr>]"

section \<open>Properties\<close>

subsection \<open>The Transform step\<close>

lemma sorts_by_votes_length: "sorts_by_votes srt \<Longrightarrow> length (srt xs) = length xs"
  unfolding sorts_by_votes_def by (metis mset_eq_length)

lemma sorts_by_votes_sorted:
  "sorts_by_votes srt \<Longrightarrow> sorted_wrt (\<lambda>a b. numVotes b \<le> numVotes a) (srt xs)"
  unfolding sorts_by_votes_def by blast


lemma astype_Int64_Inr: "astype_Int64 col = Inr ys \<Longrightarrow> ys = map (map_option floor) col"
  by (auto simp: astype_Int64_def split: if_splits)

lemma map_zip_same: "map (\<lambda>(m, y). f m y) (zip xs (map g xs)) = map (\<lambda>m. f m (g m)) xs"
  by (induction xs) auto

lemma filter_and_clean_Inr:
  assumes "filter_and_clean num merged = Inr movies"
  shows "movies = map (\<lambda>m. clean_row num m (map_option floor (to_numeric num (replace_NA (startYear m)))))
                    (filter (\<lambda>m. titleType m = Some ''movie'') merged)"
  using assms
  by (auto simp: filter_and_clean_def Let_def map_zip_same split: sum.splits dest!: astype_Int64_Inr)

lemma filter_and_clean_Inl:
  "filter_and_clean num merged = Inl e \<Longrightarrow> e = TypeError"
  by (auto simp: filter_and_clean_def Let_def astype_Int64_def split: sum.splits if_splits)

lemma keeping_sort_ok: "sorts_by_votes keeping_sort"
  unfolding sorts_by_votes_def keeping_sort_def
proof (intro allI conjI)
  fix xs :: "(int option, rat option) movies_row list"
  show "mset (sort_key (\<lambda>m. - numVotes m) xs) = mset xs" by simp
  have "sorted (map (\<lambda>m. - numVotes m) (sort_key (\<lambda>m. - numVotes m) xs))" by simp
  then show "sorted_wrt (\<lambda>a b. numVotes b \<le> numVotes a) (sort_key (\<lambda>m. - numVotes m) xs)"
    by (simp add: sorted_wrt_map)
qed


lemma insert_Rank_100:
  "length rows = 100 \<Longrightarrow> insert_Rank rows = Inr (map (\<lambda>(k, m). rename_select k m) (zip [1..100] rows))"
  by (simp add: insert_Rank_def)

lemma length_upto_100: "length [1..100::int] = 100"
  by simp

lemma map_Rank_zip:
  "length ks = length rows \<Longrightarrow> map Rank (map (\<lambda>(k, m). rename_select k m) (zip ks rows)) = ks"
  by (induction ks rows rule: list_induct2) (auto simp: rename_select_def)

lemma map_Votes_zip:
  "length ks = length rows \<Longrightarrow>
   map Votes (map (\<lambda>(k, m). rename_select k m) (zip ks rows)) = map Some (map numVotes rows)"
  by (induction ks rows rule: list_induct2) (auto simp: rename_select_def)


lemma sorted_wrt_take: "sorted_wrt P xs \<Longrightarrow> sorted_wrt P (take n xs)"
  by (metis append_take_drop_id sorted_wrt_append)

lemma get_top_100_movies_Inr:
  assumes srt: "sorts_by_votes srt"
    and n: "100 \<le> length (qualifying basics ratings)"
    and out: "get_top_100_movies srt num basics ratings = Inr out"
  shows "\<exists>movies. filter_and_clean num (merge basics ratings) = Inr movies
           \<and> length movies = length (qualifying basics ratings)
           \<and> length (take 100 (srt movies)) = 100
           \<and> out = map (\<lambda>(k, m). rename_select k m) (zip [1..100] (take 100 (srt movies)))"
proof -
  from out obtain movies where fc: "filter_and_clean num (merge basics ratings) = Inr movies"
    and ins: "insert_Rank (take 100 (srt movies)) = Inr out"
    by (auto simp: get_top_100_movies_def split: sum.splits)
  have len: "length movies = length (qualifying basics ratings)"
    using filter_and_clean_Inr [OF fc] by (simp add: qualifying_def)
  have l100: "length (take 100 (srt movies)) = 100"
    using n len sorts_by_votes_length [OF srt, of movies] by simp
  show ?thesis using fc len l100 ins insert_Rank_100 [OF l100] by simp
qed

text \<open>Claim C2. When at least 100 rows survive the join and the type filter, the table
  that \<open>get_top_100_movies\<close> returns has exactly 100 rows, its \<open>Rank\<close> column is
  1, 2, ..., 100, and its \<open>Votes\<close> column has no missing value and never increases from
  one rank to the next. This holds for every ordering \<open>sort_values\<close> may produce.\<close>

theorem get_top_100_movies_ranked:
  assumes "sorts_by_votes srt"
    and "100 \<le> length (qualifying basics ratings)"
    and "get_top_100_movies srt num basics ratings = Inr out"
  shows "length out = 100 \<and> map Rank out = [1..100]
         \<and> (\<exists>vs. map Votes out = map Some vs \<and> sorted_wrt (\<lambda>a b. b \<le> a) vs)"
proof -
  from get_top_100_movies_Inr [OF assms] obtain movies where
    l100: "length (take 100 (srt movies)) = 100"
    and out: "out = map (\<lambda>(k, m). rename_select k m) (zip [1..100] (take 100 (srt movies)))"
    by blast
  have eq: "length [1..100::int] = length (take 100 (srt movies))"
    using l100 by simp
  have "length out = 100" using out l100 by simp
  moreover have "map Rank out = [1..100]"
    unfolding out by (rule map_Rank_zip [OF eq])
  moreover have "map Votes out = map Some (map numVotes (take 100 (srt movies)))"
    unfolding out by (rule map_Votes_zip [OF eq])
  moreover have "sorted_wrt (\<lambda>a b. b \<le> a) (map numVotes (take 100 (srt movies)))"
    using sorted_wrt_take [OF sorts_by_votes_sorted [OF assms(1)], of 100 movies]
    by (simp add: sorted_wrt_map)
  ultimately show ?thesis by blast
qed

text \<open>Claim C1. The claim says that with fewer than 100 surviving rows all of them are
  returned without an error. The code does not: \<open>insert\<close> is given the hundred values
  of \<open>range(1, 101)\<close> whatever the length of the frame, so with at least one and fewer
  than 100 surviving rows the call raises (ValueError from \<open>insert\<close>, unless the cast
  of the year column has raised TypeError before).\<close>

theorem get_top_100_movies_fewer_rows:
  assumes "sorts_by_votes srt"
    and "qualifying basics ratings \<noteq> []"
    and "length (qualifying basics ratings) < 100"
  shows "get_top_100_movies srt num basics ratings = Inl ValueError
         \<or> get_top_100_movies srt num basics ratings = Inl TypeError"
proof (cases "filter_and_clean num (merge basics ratings)")
  case (Inl e)
  then show ?thesis
    using filter_and_clean_Inl [OF Inl] by (simp add: get_top_100_movies_def)
next
  case (Inr movies)
  have len: "length movies = length (qualifying basics ratings)"
    using filter_and_clean_Inr [OF Inr] by (simp add: qualifying_def)
  have "length (take 100 (srt movies)) = length movies"
    using sorts_by_votes_length [OF assms(1), of movies] len assms(3) by simp
  then have "length (take 100 (srt movies)) \<noteq> 100" "take 100 (srt movies) \<noteq> []"
    using len assms(2,3) by auto
  then show ?thesis
    using Inr by (simp add: get_top_100_movies_def insert_Rank_def)
qed


lemma sample_key_inj: "sample_key i = sample_key j \<longleftrightarrow> i = j"
  by (simp add: sample_key_def)

lemma filter_eq_single: "distinct js \<Longrightarrow> i \<in> set js \<Longrightarrow> filter (\<lambda>j. j = i) js = [i]"
  by (induction js) (auto simp: filter_empty_conv)

lemma merge_map:
  assumes "distinct js" and "set is \<subseteq> set js"
    and "\<And>i j. i \<in> set is \<Longrightarrow> j \<in> set js \<Longrightarrow> (r_tconst (r j) = b_tconst (b i)) = (j = i)"
  shows "merge (map b is) (map r js) =
         map (\<lambda>i. \<lparr>tconst = b_tconst (b i), titleType = b_titleType (b i),
                    primaryTitle = b_primaryTitle (b i), startYear = b_startYear (b i),
                    runtimeMinutes = b_runtimeMinutes (b i), genres = b_genres (b i),
                    averageRating = r_averageRating (r i), numVotes = r_numVotes (r i)\<rparr>) is"
  using assms(2,3)
proof (induction "is")
  case Nil
  then show ?case by (simp add: merge_def)
next
  case (Cons i "is")
  have "filter (\<lambda>x. r_tconst x = b_tconst (b i)) (map r js) = map r (filter (\<lambda>j. j = i) js)"
    using Cons.prems by (auto simp: filter_map comp_def intro!: arg_cong [where f = "map r"] filter_cong)
  also have "filter (\<lambda>j. j = i) js = [i]"
    using Cons.prems assms(1) by (simp add: filter_eq_single)
  finally have one: "filter (\<lambda>x. r_tconst x = b_tconst (b i)) (map r js) = [r i]" by simp
  have rest: "merge (map b is) (map r js) = map (\<lambda>i. \<lparr>tconst = b_tconst (b i), titleType = b_titleType (b i),
                    primaryTitle = b_primaryTitle (b i), startYear = b_startYear (b i),
                    runtimeMinutes = b_runtimeMinutes (b i), genres = b_genres (b i),
                    averageRating = r_averageRating (r i), numVotes = r_numVotes (r i)\<rparr>) is"
    using Cons by simp
  show ?case using one rest by (simp add: merge_def)
qed

lemma qualifying_sample:
  "qualifying (sample_basics n) (sample_ratings n) =
   map (\<lambda>i. \<lparr>tconst = b_tconst (sample_basics_row i), titleType = Some ''movie'',
              primaryTitle = b_primaryTitle (sample_basics_row i),
              startYear = b_startYear (sample_basics_row i),
              runtimeMinutes = b_runtimeMinutes (sample_basics_row i),
              genres = b_genres (sample_basics_row i),
              averageRating = r_averageRating (sample_ratings_row i),
              numVotes = r_numVotes (sample_ratings_row i)\<rparr>)
       (filter (\<lambda>i. i mod 7 \<noteq> 3) [0..<n])"
proof -
  have m: "merge (sample_basics n) (sample_ratings n) =
         map (\<lambda>i. \<lparr>tconst = b_tconst (sample_basics_row i), titleType = b_titleType (sample_basics_row i),
                    primaryTitle = b_primaryTitle (sample_basics_row i), startYear = b_startYear (sample_basics_row i),
                    runtimeMinutes = b_runtimeMinutes (sample_basics_row i), genres = b_genres (sample_basics_row i),
                    averageRating = r_averageRating (sample_ratings_row i), numVotes = r_numVotes (sample_ratings_row i)\<rparr>) [0..<n]"
    unfolding sample_basics_def sample_ratings_def
    by (rule merge_map) (auto simp: sample_basics_row_def sample_ratings_row_def sample_key_inj)
  show ?thesis
    unfolding qualifying_def m
    by (simp add: filter_map comp_def sample_basics_row_def cong: map_cong)
qed

lemma length_qualifying_sample: "length (qualifying (sample_basics 130) (sample_ratings 130)) = 111"
proof -
  have "length (filter (\<lambda>i. i mod 7 \<noteq> 3) [0..<130::nat]) = 111" by code_simp
  then show ?thesis by (simp add: qualifying_sample)
qed

lemma decimal_whole: "\<forall>s q. decimal s = Some q \<longrightarrow> of_int \<lfloor>q\<rfloor> = q"
proof (intro allI impI)
  fix s q assume "decimal s = Some q"
  then obtain z :: nat where "q = of_nat z"
    by (auto simp: decimal_def split: if_splits)
  then show "of_int \<lfloor>q\<rfloor> = q" by simp
qed

lemma filter_and_clean_whole:
  assumes "\<forall>s q. num s = Some q \<longrightarrow> of_int \<lfloor>q\<rfloor> = q"
  shows "\<exists>movies. filter_and_clean num merged = Inr movies"
proof -
  have "\<forall>c \<in> set (map (\<lambda>m. to_numeric num (replace_NA (startYear m)))
          (filter (\<lambda>m. titleType m = Some ''movie'') merged)).
          case c of None \<Rightarrow> True | Some q \<Rightarrow> of_int \<lfloor>q\<rfloor> = q"
    using assms by (auto simp: to_numeric_def split: option.splits)
  then show ?thesis
    by (simp add: filter_and_clean_def Let_def astype_Int64_def)
qed

lemma get_top_100_movies_returns:
  assumes "sorts_by_votes srt"
    and "100 \<le> length (qualifying basics ratings)"
    and "\<forall>s q. num s = Some q \<longrightarrow> of_int \<lfloor>q\<rfloor> = q"
  shows "\<exists>out. get_top_100_movies srt num basics ratings = Inr out"
proof -
  from filter_and_clean_whole [OF assms(3)] obtain movies
    where fc: "filter_and_clean num (merge basics ratings) = Inr movies" by blast
  have "length movies = length (qualifying basics ratings)"
    using filter_and_clean_Inr [OF fc] by (simp add: qualifying_def)
  then have "length (take 100 (srt movies)) = 100"
    using assms(2) sorts_by_votes_length [OF assms(1), of movies] by simp
  then show ?thesis using fc by (simp add: get_top_100_movies_def insert_Rank_def)
qed

text \<open>Claim C2, witness: the sample tables with 130 titles, of which 111 qualify.\<close>

theorem get_top_100_movies_ranked_witness:
  "100 \<le> length (qualifying (sample_basics 130) (sample_ratings 130)) \<and>
   (\<exists>out. get_top_100_movies keeping_sort decimal (sample_basics 130) (sample_ratings 130) = Inr out
      \<and> length out = 100 \<and> map Rank out = [1..100]
      \<and> (\<exists>vs. map Votes out = map Some vs \<and> sorted_wrt (\<lambda>a b. b \<le> a) vs))"
proof -
  have n: "100 \<le> length (qualifying (sample_basics 130) (sample_ratings 130))"
    by (simp add: length_qualifying_sample)
  obtain out where
    out: "get_top_100_movies keeping_sort decimal (sample_basics 130) (sample_ratings 130) = Inr out"
    using get_top_100_movies_returns [OF keeping_sort_ok n decimal_whole] by blast
  show ?thesis
    using n out get_top_100_movies_ranked [OF keeping_sort_ok n out] by blast
qed


lemma get_top_100_movies_not_TypeError:
  assumes "\<forall>s q. num s = Some q \<longrightarrow> of_int \<lfloor>q\<rfloor> = q"
  shows "get_top_100_movies srt num basics ratings \<noteq> Inl TypeError"
proof -
  from filter_and_clean_whole [OF assms] obtain movies
    where "filter_and_clean num (merge basics ratings) = Inr movies" by blast
  then show ?thesis
    by (simp add: get_top_100_movies_def insert_Rank_def)
qed

lemma length_qualifying_sample_3: "length (qualifying (sample_basics 3) (sample_ratings 3)) = 3"
proof -
  have "length (filter (\<lambda>i. i mod 7 \<noteq> 3) [0..<3::nat]) = 3" by code_simp
  then show ?thesis by (simp add: qualifying_sample)
qed

text \<open>Claim C1, the failing input: three titles of type movie, each with a ratings row.
  The call raises ValueError.\<close>

theorem get_top_100_movies_fewer_rows_witness:
  "qualifying (sample_basics 3) (sample_ratings 3) \<noteq> []
   \<and> length (qualifying (sample_basics 3) (sample_ratings 3)) < 100
   \<and> get_top_100_movies keeping_sort decimal (sample_basics 3) (sample_ratings 3) = Inl ValueError"
proof -
  have ne: "qualifying (sample_basics 3) (sample_ratings 3) \<noteq> []"
    using length_qualifying_sample_3 by auto
  have lt: "length (qualifying (sample_basics 3) (sample_ratings 3)) < 100"
    by (simp add: length_qualifying_sample_3)
  show ?thesis
    using ne lt get_top_100_movies_fewer_rows [OF keeping_sort_ok ne lt, of decimal]
      get_top_100_movies_not_TypeError [OF decimal_whole]
    by blast
qed





subsection \<open>Report, Visualize and Rank by category\<close>

lemma of_genre_groupby_head:
  "of_genre g (groupby_head n seen xs) = take (n - count_list seen g) (of_genre g xs)"
proof (induction xs arbitrary: seen)
  case Nil
  then show ?case by (simp add: of_genre_def)
next
  case (Cons r rs)
  show ?case
  proof (cases "Genres r")
    case None
    then show ?thesis using Cons [of seen] by (simp add: of_genre_def)
  next
    case (Some h)
    show ?thesis
    proof (cases "h = g")
      case True
      then show ?thesis using Some Cons [of "h # seen"]
        by (auto simp: of_genre_def take_Cons' )
    next
      case False
      then show ?thesis using Some Cons [of "h # seen"]
        by (auto simp: of_genre_def)
    qed
  qed
qed

lemma take_3_of_genre_head_10:
  "take 3 (of_genre g (groupby_head 10 [] xs)) = take 3 (of_genre g xs)"
  by (simp add: of_genre_groupby_head min_def)

text \<open>Claim C5. For every frame and every ordering the library may produce, the
  leaderboards that \<open>top_movies_by_genre\<close> prints (top 10 of each category, then the
  first 3 of those) are the ones obtained by taking the first 3 rows of each category
  from the sorted frame directly. What stands beyond the third position of a category
  never reaches the output.\<close>

theorem top_movies_by_genre_top_3:
  "top_movies_by_genre srtR srtV srtC df = top_3_directly srtR srtV srtC df"
  by (simp add: top_movies_by_genre_def top_3_directly_def Let_def take_3_of_genre_head_10)

lemma top_3_directly_drama:
  "top_3_directly by_rating by_votes count_sort drama_frame =
     [\<lparr>genre_name = ''Drama'',
       by_rating = [(Some ''A'', Some (93/10), Some 1994), (Some ''D'', Some (92/10), Some 1972),
                    (Some ''B'', Some 9, Some 2008)],
       by_votes = [(Some ''A'', Some 500, Some 1994), (Some ''B'', Some 400, Some 2008),
                   (Some ''C'', Some 300, Some 1999)]\<rparr>,
      \<lparr>genre_name = ''Action'',
       by_rating = [(Some ''B'', Some 9, Some 2008), (Some ''E'', Some (87/10), Some 2010)],
       by_votes = [(Some ''B'', Some 400, Some 2008), (Some ''E'', Some 100, Some 2010)]\<rparr>,
      \<lparr>genre_name = ''Crime'',
       by_rating = [(Some ''D'', Some (92/10), Some 1972)],
       by_votes = [(Some ''D'', Some 200, Some 1972)]\<rparr>]"
  by (simp add: top_3_directly_def Let_def explode_Genres_def drama_frame_def str_split_def
      value_counts_def present_def count_sort_def of_genre_def by_rating_def by_votes_def)

text \<open>Claim C5, witness: a frame of five rows, four of them in the category Drama. The
  fourth Drama row by rating (C) and by votes (D) is not printed.\<close>

theorem top_movies_by_genre_top_3_witness:
  "top_movies_by_genre by_rating by_votes count_sort drama_frame =
     [\<lparr>genre_name = ''Drama'',
       by_rating = [(Some ''A'', Some (93/10), Some 1994), (Some ''D'', Some (92/10), Some 1972),
                    (Some ''B'', Some 9, Some 2008)],
       by_votes = [(Some ''A'', Some 500, Some 1994), (Some ''B'', Some 400, Some 2008),
                   (Some ''C'', Some 300, Some 1999)]\<rparr>,
      \<lparr>genre_name = ''Action'',
       by_rating = [(Some ''B'', Some 9, Some 2008), (Some ''E'', Some (87/10), Some 2010)],
       by_votes = [(Some ''B'', Some 400, Some 2008), (Some ''E'', Some 100, Some 2010)]\<rparr>,
      \<lparr>genre_name = ''Crime'',
       by_rating = [(Some ''D'', Some (92/10), Some 1972)],
       by_votes = [(Some ''D'', Some 200, Some 1972)]\<rparr>]"
  using top_movies_by_genre_top_3 [of by_rating by_votes count_sort drama_frame]
  by (simp only: top_3_directly_drama)

lemma str_split_Action_Drama: "str_split ''Action,Drama'' = [''Action'', ''Drama'']"
  by (simp add: str_split_def)


lemma explode_Genres_append:
  "explode_Genres (xs @ ys) = explode_Genres xs @ explode_Genres ys"
  by (simp add: explode_Genres_def)

lemma of_genre_append: "of_genre g (xs @ ys) = of_genre g xs @ of_genre g ys"
  by (simp add: of_genre_def)

text \<open>Claim C7. A row whose category field is \<open>Action,Drama\<close> is replaced in the
  expanded frame by exactly two copies, one labelled Action and one labelled Drama, at
  the place of the row. It adds one row to the Action pool, one row to the Drama pool
  and nothing to the pool of any other category.\<close>

theorem explode_Genres_Action_Drama:
  assumes "Genres r = Some ''Action,Drama''"
  shows "explode_Genres (xs @ r # ys) =
           explode_Genres xs @ [r\<lparr>Genres := Some ''Action''\<rparr>, r\<lparr>Genres := Some ''Drama''\<rparr>]
             @ explode_Genres ys
         \<and> of_genre g (explode_Genres (xs @ r # ys)) =
           of_genre g (explode_Genres xs)
             @ (if g = ''Action'' then [r\<lparr>Genres := Some ''Action''\<rparr>]
                else if g = ''Drama'' then [r\<lparr>Genres := Some ''Drama''\<rparr>] else [])
             @ of_genre g (explode_Genres ys)"
proof -
  have one: "explode_Genres [r] = [r\<lparr>Genres := Some ''Action''\<rparr>, r\<lparr>Genres := Some ''Drama''\<rparr>]"
    using assms by (simp add: explode_Genres_def str_split_Action_Drama)
  have all: "explode_Genres (xs @ r # ys) = explode_Genres xs @ explode_Genres [r] @ explode_Genres ys"
    using explode_Genres_append [of xs "[r] @ ys"] explode_Genres_append [of "[r]" ys] by simp
  have pool: "of_genre g [r\<lparr>Genres := Some ''Action''\<rparr>, r\<lparr>Genres := Some ''Drama''\<rparr>] =
              (if g = ''Action'' then [r\<lparr>Genres := Some ''Action''\<rparr>]
               else if g = ''Drama'' then [r\<lparr>Genres := Some ''Drama''\<rparr>] else [])"
    by (auto simp: of_genre_def)
  show ?thesis
    unfolding all one of_genre_append pool by simp
qed









text \<open>Claim C9. \<open>analyze_data\<close> leaves the frame it is given as it was, for every
  frame, also when the call raises.\<close>

theorem analyze_data_read_only: "fst (analyze_data srt df) = df"
  unfolding analyze_data_def by (rule fst_conv)

lemma value_counts_scenario:
  "value_counts count_sort (all_genres scenario_frame) =
     [(''Horror'', 1), (''Crime'', 1), (''Romance'', 1), (''Comedy'', 1)]"
  by (simp add: value_counts_def count_sort_def all_genres_def scenario_frame_def
      present_def str_split_def)

lemma year_extreme_scenario:
  "year_extreme min scenario_frame = Inr (1979, Some ''Alien'')"
  "year_extreme max scenario_frame = Inr (1995, Some ''Heat'')"
  by (simp_all add: year_extreme_def scenario_frame_def present_def)

lemma mean_scenario:
  "mean (map Rating scenario_frame) = Some (49 / 6)"
  "mean (map Runtime scenario_frame) = Some (382 / 3)"
  "sum_list (present (map Votes scenario_frame)) = 600000"
  "length scenario_frame = 3"
  by (simp_all add: mean_def scenario_frame_def present_def)

lemma analyze_data_scenario:
  "snd (analyze_data count_sort scenario_frame) =
     Inr \<lparr>total_movies = 3, average_rating = Some (49 / 6),
          average_runtime = Some (382 / 3), total_votes = 600000,
          oldest_movie = (1979, Some ''Alien''),
          newest_movie = (1995, Some ''Heat''),
          top_genres = [(''Horror'', 1), (''Crime'', 1), (''Romance'', 1)]\<rparr>"
  by (simp add: analyze_data_def year_extreme_scenario mean_scenario value_counts_scenario)


text \<open>Claim C9, witness: the report on the scenario frame, and the frame after the
  call.\<close>

theorem analyze_data_read_only_witness:
  "analyze_data count_sort scenario_frame =
     (scenario_frame,
      Inr \<lparr>total_movies = 3, average_rating = Some (49 / 6),
           average_runtime = Some (382 / 3), total_votes = 600000,
           oldest_movie = (1979, Some ''Alien''),
           newest_movie = (1995, Some ''Heat''),
           top_genres = [(''Horror'', 1), (''Crime'', 1), (''Romance'', 1)]\<rparr>)"
  using analyze_data_read_only [of count_sort scenario_frame] analyze_data_scenario
  by (simp add: prod_eq_iff)

text \<open>Claim C7, witness: a frame of one such row. It is in the Action pool and in the
  Drama pool, and not in the Comedy pool.\<close>

theorem explode_Genres_Action_Drama_witness:
  "Genres action_drama_row = Some ''Action,Drama''
   \<and> explode_Genres [action_drama_row] =
       [action_drama_row\<lparr>Genres := Some ''Action''\<rparr>, action_drama_row\<lparr>Genres := Some ''Drama''\<rparr>]
   \<and> length (of_genre ''Action'' (explode_Genres [action_drama_row])) = 1
   \<and> length (of_genre ''Drama'' (explode_Genres [action_drama_row])) = 1
   \<and> of_genre ''Comedy'' (explode_Genres [action_drama_row]) = []"
proof -
  have gs: "Genres action_drama_row = Some ''Action,Drama''"
    by (simp add: action_drama_row_def)
  have e: "explode_Genres [] = ([] :: movie list)"
    by (simp add: explode_Genres_def)
  have o: "of_genre g ([] :: movie list) = []" for g
    by (simp add: of_genre_def)
  have t: "explode_Genres [action_drama_row] =
       [action_drama_row\<lparr>Genres := Some ''Action''\<rparr>, action_drama_row\<lparr>Genres := Some ''Drama''\<rparr>]
     \<and> of_genre g (explode_Genres [action_drama_row]) =
       (if g = ''Action'' then [action_drama_row\<lparr>Genres := Some ''Action''\<rparr>]
        else if g = ''Drama'' then [action_drama_row\<lparr>Genres := Some ''Drama''\<rparr>] else [])" for g
    by (rule explode_Genres_Action_Drama [OF gs, of "[]" "[]" g, unfolded e o append_Nil append_Nil2])
  have a: "length (of_genre ''Action'' (explode_Genres [action_drama_row])) = 1"
    by (simp add: conjunct2 [OF t])
  have d: "length (of_genre ''Drama'' (explode_Genres [action_drama_row])) = 1"
    by (simp add: conjunct2 [OF t])
  have c: "of_genre ''Comedy'' (explode_Genres [action_drama_row]) = []"
    by (simp add: conjunct2 [OF t])
  show ?thesis
    by (rule conjI [OF gs conjI [OF conjunct1 [OF t] conjI [OF a conjI [OF d c]]]])
qed

text \<open>Claim C4. The claim says that a row is in the distribution of a category exactly
  when the category is one of the labels of the row. The code selects by
  \<open>str.contains\<close>: for a label free of metacharacters a row is selected exactly when
  the label occurs somewhere inside the comma-joined field, also as a part of a longer
  label.\<close>

theorem genre_movies_by_substring:
  assumes "regex_literal genre" and "\<forall>r \<in> set df. Genres r \<noteq> None"
  shows "genre_movies rx genre df =
           Inr (filter (\<lambda>r. \<exists>s. Genres r = Some s \<and> sublist genre s) df)"
proof -
  have "(case Genres r of None \<Rightarrow> False | Some s \<Rightarrow> str_contains rx genre s)
        = (\<exists>s. Genres r = Some s \<and> sublist genre s)" for r :: "'a movie_scheme"
    using assms(1) by (cases "Genres r") (simp_all add: str_contains_def)
  then show ?thesis
    using assms(2) by (simp add: genre_movies_def)
qed

lemma regex_literal_Music: "regex_literal ''Music''" "regex_literal ''Musical''"
  by (simp_all add: regex_literal_def)

lemma sublist_Music:
  "sublist ''Music'' ''Music''" "sublist ''Music'' ''Musical''"
  "sublist ''Musical'' ''Musical''" "\<not> sublist ''Musical'' ''Music''"
  by (simp_all add: sublist_code(3))

lemma music_frame_Genres: "map Genres music_frame = [Some ''Music'', Some ''Musical'']"
  by (simp add: music_frame_def)

lemma str_split_Musical: "str_split ''Musical'' = [''Musical'']"
  by (simp add: str_split_def)

lemma value_counts_music:
  "value_counts count_sort (all_genres (map add_Decade music_frame)) = [(''Musical'', 1), (''Music'', 1)]"
  by (simp add: value_counts_def count_sort_def all_genres_def music_frame_def add_Decade_def
      present_def str_split_def)

lemma genre_movies_music:
  "genre_movies sublist ''Music'' (map add_Decade music_frame) = Inr (map add_Decade music_frame)"
  "genre_movies sublist ''Musical'' (map add_Decade music_frame) = Inr [add_Decade (music_frame ! 1)]"
  by (simp_all add: genre_movies_def str_contains_def regex_literal_Music music_frame_def
      add_Decade_def sublist_Music)

lemma create_visualizations_music:
  "snd (create_visualizations count_sort sublist music_frame) =
     Inr \<lparr>panel_B = [(2010, 2)],
          panel_C = [(''Musical'', Some 8), (''Music'', Some (17 / 2)), (''Music'', Some 8)]\<rparr>"
  by (simp add: create_visualizations_def Let_def value_counts_music genre_movies_music)
     (simp add: music_frame_def add_Decade_def decade_counts_def present_def)

text \<open>Claim C4, the failing input: a row with the category Music and a row with the
  category Musical. The second row has no label Music, and yet panel C has its rating
  under Music.\<close>

theorem genre_movies_by_substring_witness:
  "map Genres music_frame = [Some ''Music'', Some ''Musical'']
   \<and> str_split ''Musical'' = [''Musical'']
   \<and> genre_movies sublist ''Music'' music_frame = Inr music_frame
   \<and> snd (create_visualizations count_sort sublist music_frame) =
       Inr \<lparr>panel_B = [(2010, 2)],
            panel_C = [(''Musical'', Some 8), (''Music'', Some (17 / 2)), (''Music'', Some 8)]\<rparr>"
proof -
  have a: "regex_literal ''Music''" by (rule regex_literal_Music)
  have b: "\<forall>r \<in> set music_frame. Genres r \<noteq> None" by (simp add: music_frame_def)
  have "filter (\<lambda>r. \<exists>s. Genres r = Some s \<and> sublist ''Music'' s) music_frame = music_frame"
    by (simp add: music_frame_def sublist_Music)
  then have d: "genre_movies sublist ''Music'' music_frame = Inr music_frame"
    using genre_movies_by_substring [OF a b, of sublist] by simp
  show ?thesis
    by (rule conjI [OF music_frame_Genres conjI [OF str_split_Musical
          conjI [OF d create_visualizations_music]]])
qed

lemma Decade_floor:
  fixes y :: int
  shows "(y div 10) * 10 mod 10 = 0 \<and> (y div 10) * 10 \<le> y \<and> y < (y div 10) * 10 + 10"
  by presburger

text \<open>Claim C10. \<open>create_visualizations\<close> leaves the caller's frame with one more
  column, \<open>Decade\<close>: every other cell is unchanged, the decade of a row is its year
  rounded down to a multiple of ten (missing where the year is missing), and the main
  block hands this extended frame to \<open>top_movies_by_genre\<close>.\<close>

theorem create_visualizations_adds_Decade:
  "fst (create_visualizations srtC rx df) = map add_Decade df
   \<and> (\<forall>r. movie.truncate (add_Decade r) = r
          \<and> Decade (add_Decade r) = map_option (\<lambda>y. (y div 10) * 10) (Year r))
   \<and> (\<forall>r y. Year r = Some y \<longrightarrow>
          (\<exists>d. Decade (add_Decade r) = Some d \<and> d mod 10 = 0 \<and> d \<le> y \<and> y < d + 10))
   \<and> main srt num srtC rx srtR srtV basics ratings =
       (case get_top_100_movies srt num basics ratings of
          Inl e \<Rightarrow> Inl e
        | Inr movies \<Rightarrow>
           (case snd (analyze_data srtC movies) of
              Inl e \<Rightarrow> Inl e
            | Inr rep \<Rightarrow>
               (case snd (create_visualizations srtC rx movies) of
                  Inl e \<Rightarrow> Inl e
                | Inr pan \<Rightarrow>
                    Inr \<lparr>csv = movies, report = rep, charts = pan,
                         leaderboards =
                           top_movies_by_genre srtR srtV srtC (map add_Decade movies)\<rparr>)))"
proof -
  have a: "fst (create_visualizations srtC rx df) = map add_Decade df"
    by (simp add: create_visualizations_def Let_def)
  have b: "\<forall>r. movie.truncate (add_Decade r) = r
          \<and> Decade (add_Decade r) = map_option (\<lambda>y. (y div 10) * 10) (Year r)"
    by (simp add: add_Decade_def movie.truncate_def)
  have c: "\<forall>r y. Year r = Some y \<longrightarrow>
          (\<exists>d. Decade (add_Decade r) = Some d \<and> d mod 10 = 0 \<and> d \<le> y \<and> y < d + 10)"
    using Decade_floor by (simp add: add_Decade_def)
  have d: "main srt num srtC rx srtR srtV basics ratings =
       (case get_top_100_movies srt num basics ratings of
          Inl e \<Rightarrow> Inl e
        | Inr movies \<Rightarrow>
           (case snd (analyze_data srtC movies) of
              Inl e \<Rightarrow> Inl e
            | Inr rep \<Rightarrow>
               (case snd (create_visualizations srtC rx movies) of
                  Inl e \<Rightarrow> Inl e
                | Inr pan \<Rightarrow>
                    Inr \<lparr>csv = movies, report = rep, charts = pan,
                         leaderboards =
                           top_movies_by_genre srtR srtV srtC (map add_Decade movies)\<rparr>)))"
    by (simp add: main_def analyze_data_def create_visualizations_def Let_def
        split: sum.splits)
  show ?thesis
    by (rule conjI [OF a conjI [OF b conjI [OF c d]]])
qed

text \<open>Claim C10, witness: the scenario frame after the call. Its decades are 1980, 1990
  and 1970 for the years 1989, 1995 and 1979, and without the new column it is the frame
  that was passed in.\<close>

theorem create_visualizations_adds_Decade_witness:
  "map Decade (fst (create_visualizations count_sort sublist scenario_frame)) =
     [Some 1980, Some 1990, Some 1970]
   \<and> map movie.truncate (fst (create_visualizations count_sort sublist scenario_frame)) =
     scenario_frame
   \<and> map Year scenario_frame = [Some 1989, Some 1995, Some 1979]"
proof -
  have a: "fst (create_visualizations count_sort sublist scenario_frame) =
           map add_Decade scenario_frame"
    using create_visualizations_adds_Decade [of count_sort sublist scenario_frame]
    by (rule conjunct1)
  have b: "map Decade (map add_Decade scenario_frame) = [Some 1980, Some 1990, Some 1970]"
    by (simp add: scenario_frame_def add_Decade_def)
  have c: "map movie.truncate (map add_Decade scenario_frame) = scenario_frame"
    by (simp add: scenario_frame_def add_Decade_def movie.truncate_def)
  have d: "map Year scenario_frame = [Some 1989, Some 1995, Some 1979]"
    by (simp add: scenario_frame_def)
  show ?thesis
    unfolding a by (rule conjI [OF b conjI [OF c d]])
qed

end
